theory Spec2Isabelle
  imports Complex_Main "HOL-Library.Sublist"
begin

section \<open>The Olsztyn geoportal plugin: the selection dialog and its confirm operation\<close>

text \<open>
  The development embeds \<^verbatim>\<open>olsztyn_geoportal.py\<close>: the layer catalog and the fixed
  extent that \<^verbatim>\<open>OlsztynGeoportalDialog.__init__\<close> stores on the dialog, and the
  method \<^verbatim>\<open>download_layer\<close>. The host application (QGIS and Qt) is an injected
  capability: each call the method makes on it is recorded, in order, and the host decides
  what the call returns and whether it raises.

  Python strings are modelled as \<^typ>\<open>string\<close>, a code point beyond ASCII standing as its
  UTF-8 bytes. The source never measures or indexes a string; it only compares strings,
  concatenates them and splits one on a comma, and these agree on both readings.
\<close>

subsection \<open>Built-in functions of the language\<close>

text \<open>\<^verbatim>\<open>str.split(sep)\<close> for a one-character separator: never an empty result, one more
  component than there are separators.\<close>

fun py_split :: "char \<Rightarrow> string \<Rightarrow> string list" where
  "py_split sep [] = ['''']"
| "py_split sep (c # cs) =
     (if c = sep then '''' # py_split sep cs
      else (case py_split sep cs of
              [] \<Rightarrow> [c # '''']
            | w # ws \<Rightarrow> (c # w) # ws))"

text \<open>\<^verbatim>\<open>"&".join(parts)\<close>.\<close>

fun join :: "string \<Rightarrow> string list \<Rightarrow> string" where
  "join sep [] = ''''"
| "join sep [p] = p"
| "join sep (p # q # ps) = p @ sep @ join sep (q # ps)"

text \<open>\<^verbatim>\<open>str(n)\<close> of an integer, as an f-string formats it: decimal, a minus sign when
  negative.\<close>

definition digit_char :: "nat \<Rightarrow> char" where
  "digit_char n = ''0123456789'' ! n"

fun str_nat :: "nat \<Rightarrow> string" where
  "str_nat n = (if n < 10 then [digit_char n] else str_nat (n div 10) @ [digit_char (n mod 10)])"

declare str_nat.simps [simp del]

definition str_int :: "int \<Rightarrow> string" where
  "str_int i = (if i < 0 then CHR ''-'' # str_nat (nat (- i)) else str_nat (nat i))"

text \<open>An exception object; the field is what \<^verbatim>\<open>str(e)\<close> gives. \<open>Exception\<close> stands for
  an instance of Python's class \<^verbatim>\<open>Exception\<close> or of one of its subclasses
  (\<^verbatim>\<open>ValueError\<close>, \<^verbatim>\<open>RuntimeError\<close>, ...), the class the handler of
  \<^verbatim>\<open>download_layer\<close> names. \<^verbatim>\<open>KeyboardInterrupt\<close> and \<^verbatim>\<open>SystemExit\<close> derive from
  \<^verbatim>\<open>BaseException\<close> beside that class, and a handler for \<^verbatim>\<open>Exception\<close> does not
  catch them.\<close>

datatype py_exception =
    is_Exception: Exception (str: string)
  | KeyboardInterrupt (str: string)
  | SystemExit (str: string)

text \<open>\<^verbatim>\<open>float(s)\<close> on the strings the dialog gives it: a non-empty run of ASCII decimal
  digits denotes that number (below \<open>2^53\<close> exactly, as the components of the fixed extent
  are). Any other string is answered with the \<^verbatim>\<open>ValueError\<close> that \<^verbatim>\<open>float\<close> raises on
  text it cannot read; the signs, fractions and exponents that \<^verbatim>\<open>float\<close> also reads do
  not occur in the extent string and are not modelled.\<close>

definition digit_val :: "char \<Rightarrow> nat option" where
  "digit_val c =
     map_of [(CHR ''0'', 0), (CHR ''1'', 1), (CHR ''2'', 2), (CHR ''3'', 3), (CHR ''4'', 4),
             (CHR ''5'', 5), (CHR ''6'', 6), (CHR ''7'', 7), (CHR ''8'', 8), (CHR ''9'', 9)] c"

fun digits_val :: "nat \<Rightarrow> string \<Rightarrow> nat option" where
  "digits_val acc [] = Some acc"
| "digits_val acc (c # cs) =
     (case digit_val c of
        None \<Rightarrow> None
      | Some d \<Rightarrow> digits_val (10 * acc + d) cs)"

definition py_float :: "string \<Rightarrow> py_exception + real" where
  "py_float s =
     (case (if s = '''' then None else digits_val 0 s) of
        Some n \<Rightarrow> Inr (real n)
      | None \<Rightarrow>
          Inl (Exception (''could not convert string to float: '' @ [CHR 0x27] @ s @ [CHR 0x27])))"

subsection \<open>The data the dialog holds\<close>

text \<open>One entry of \<^verbatim>\<open>self.layers\<close>. Every entry of the source's table has the key
  \<^verbatim>\<open>"info"\<close>; the field is optional because \<^verbatim>\<open>download_layer\<close> asks whether the key
  is there.\<close>

record layer_info =
  ltype :: string
  url :: string
  zmin :: int
  zmax :: int
  crs :: string
  info :: "string option"

datatype qgis_interface = QgisInterface

text \<open>The attributes of the dialog that \<^verbatim>\<open>download_layer\<close> reads or writes. The
  combo box is its list of items and its current text; the progress bar is its visibility;
  \<open>accepted\<close> says that \<^verbatim>\<open>self.accept()\<close> has closed the dialog.\<close>

record dialog =
  iface :: "qgis_interface option"
  layer_combo :: "string list"
  current_text :: string
  olsztyn_bbox :: string
  layers :: "(string \<times> layer_info) list"
  progress_bar_visible :: bool
  accepted :: bool

definition catalog :: "(string \<times> layer_info) list" where
  "catalog =
    [(''Standardowa mapa OSM'',
      \<lparr>ltype = ''xyz'', url = ''https://tile.openstreetmap.org/{z}/{x}/{y}.png'',
       zmin = 0, zmax = 19, crs = ''EPSG:3857'',
       info = Some (''Standardowa mapa OpenStreetMap z pe'' @ [CHR 0xC5, CHR 0x82] @
                    ''nymi detalami'')\<rparr>),
     (''OpenTopoMap (topograficzna)'',
      \<lparr>ltype = ''xyz'', url = ''https://a.tile.opentopomap.org/{z}/{x}/{y}.png'',
       zmin = 0, zmax = 17, crs = ''EPSG:3857'',
       info = Some ''Mapa topograficzna ze szlakiami i warstwicami''\<rparr>),
     (''CyclOSM (dla rowerzyst'' @ [CHR 0xC3, CHR 0xB3] @ ''w)'',
      \<lparr>ltype = ''xyz'',
       url = ''https://a.tile-cyclosm.openstreetmap.fr/cyclosm/{z}/{x}/{y}.png'',
       zmin = 0, zmax = 20, crs = ''EPSG:3857'',
       info = Some (''Mapa z wyr'' @ [CHR 0xC3, CHR 0xB3, CHR 0xC5, CHR 0xBC] @ ''nionymi '' @
                    [CHR 0xC5, CHR 0x9B] @ ''cie'' @ [CHR 0xC5, CHR 0xBC] @
                    ''kami rowerowymi'')\<rparr>),
     (''Humanitarian (humanitarna)'',
      \<lparr>ltype = ''xyz'', url = ''https://a.tile.openstreetmap.fr/hot/{z}/{x}/{y}.png'',
       zmin = 0, zmax = 20, crs = ''EPSG:3857'',
       info = Some (''Mapa humanitarna z wyr'' @ [CHR 0xC3, CHR 0xB3, CHR 0xC5, CHR 0xBC] @
                    ''nionymi budynkami'')\<rparr>),
     (''Transport'',
      \<lparr>ltype = ''xyz'', url = ''https://tile.memomaps.de/tilegen/{z}/{x}/{y}.png'',
       zmin = 0, zmax = 18, crs = ''EPSG:3857'',
       info = Some ''Mapa komunikacji publicznej i transportu''\<rparr>)]"

text \<open>\<^verbatim>\<open>__init__(self, iface)\<close>: the fixed extent, the table, the combo box filled with
  the table's keys in their order (its current text is then the first of them), the
  progress bar hidden.\<close>

definition init :: "qgis_interface option \<Rightarrow> dialog" where
  "init i =
     \<lparr>iface = i,
      layer_combo = map fst catalog,
      current_text = (case map fst catalog of [] \<Rightarrow> '''' | k # _ \<Rightarrow> k),
      olsztyn_bbox = ''2272000,7129000,2288000,7145000'',
      layers = catalog,
      progress_bar_visible = False,
      accepted = False\<rparr>"

text \<open>\<^verbatim>\<open>self.layers.get(name)\<close>.\<close>

definition get :: "(string \<times> layer_info) list \<Rightarrow> string \<Rightarrow> layer_info option" where
  "get table name = map_of table name"

subsection \<open>The host application\<close>

text \<open>The objects \<^verbatim>\<open>download_layer\<close> constructs, each known by the arguments of its
  constructor.\<close>

datatype qgs_raster_layer = QgsRasterLayer (uri: string) (layer_name: string) (provider: string)

datatype qgs_crs = QgsCoordinateReferenceSystem string

datatype qgs_rectangle = QgsRectangle real real real real

text \<open>The calls \<^verbatim>\<open>download_layer\<close> makes on the host, one constructor for each call
  expression of the method. A message box carries its title and its text.\<close>

datatype call =
    LayerCombo_currentText
  | is_warning: QMessageBox_warning string string
  | is_information: QMessageBox_information string string
  | is_critical: QMessageBox_critical string string
  | ProgressBar_setVisible bool
  | ProgressBar_setRange int int
  | is_new_layer: New_layer qgs_raster_layer
  | Layer_isValid qgs_raster_layer
  | Layer_error qgs_raster_layer
  | Error_message qgs_raster_layer
  | QgsProject_instance
  | Project_crs
  | Crs_isValid
  | Crs_authid
  | New_crs qgs_crs
  | is_setCrs: Project_setCrs qgs_crs
  | is_addMapLayer: Project_addMapLayer qgs_raster_layer
  | is_mapCanvas: Iface_mapCanvas
  | New_rectangle qgs_rectangle
  | is_setDestinationCrs: Canvas_setDestinationCrs qgs_crs
  | is_setExtent: Canvas_setExtent qgs_rectangle
  | is_refresh: Canvas_refresh
  | is_zoomToFeatureExtent: Canvas_zoomToFeatureExtent qgs_rectangle
  | is_accept: Dialog_accept

text \<open>What the host answers. \<open>raises\<close> decides, from the calls made so far and the call
  at hand, whether the call raises. \<open>layer_error\<close> is \<open>None\<close> when
  \<^verbatim>\<open>layer.error()\<close> is falsy and otherwise holds \<^verbatim>\<open>layer.error().message()\<close>.
  The last two fields are \<^verbatim>\<open>project.crs().isValid()\<close> and
  \<^verbatim>\<open>project.crs().authid()\<close> of the project as the method finds it.\<close>

record host =
  raises :: "call list \<Rightarrow> call \<Rightarrow> py_exception option"
  layer_isValid :: "qgs_raster_layer \<Rightarrow> bool"
  layer_error :: "qgs_raster_layer \<Rightarrow> string option"
  project_crs_isValid :: bool
  project_crs_authid :: string

subsection \<open>Statements with effects\<close>

text \<open>A statement runs on the dialog and the log of calls; it ends normally (\<open>None\<close>) or
  with a raised exception.\<close>

type_synonym state = "dialog \<times> call list"

type_synonym action = "state \<Rightarrow> py_exception option \<times> state"

definition skip :: action where
  "skip s = (None, s)"

definition raise :: "py_exception \<Rightarrow> action" where
  "raise e s = (Some e, s)"

text \<open>A call on the host is logged, and then returns or raises as the host decides.\<close>

definition call :: "host \<Rightarrow> call \<Rightarrow> action" where
  "call h c s = (raises h (snd s) c, (fst s, snd s @ [c]))"

definition modify :: "(dialog \<Rightarrow> dialog) \<Rightarrow> action" where
  "modify f s = (None, (f (fst s), snd s))"

text \<open>Statements one after the other: the first exception ends the sequence.\<close>

fun sequence :: "action list \<Rightarrow> action" where
  "sequence [] s = (None, s)"
| "sequence (a # as) s =
     (case a s of
        (None, s') \<Rightarrow> sequence as s'
      | (Some e, s') \<Rightarrow> (Some e, s'))"

text \<open>\<^verbatim>\<open>try: body except Exception as e: handler\<close>: the handler takes the instances of
  \<^verbatim>\<open>Exception\<close>; any other exception goes on.\<close>

definition try_except :: "action \<Rightarrow> (py_exception \<Rightarrow> action) \<Rightarrow> action" where
  "try_except body handler s =
     (case body s of
        (None, s') \<Rightarrow> (None, s')
      | (Some e, s') \<Rightarrow> (if is_Exception e then handler e s' else (Some e, s')))"

text \<open>\<^verbatim>\<open>try: body finally: cleanup\<close>: the cleanup always runs; an exception of the
  body goes on after it, unless the cleanup raises one of its own.\<close>

definition try_finally :: "action \<Rightarrow> action \<Rightarrow> action" where
  "try_finally body cleanup s =
     (case body s of
        (r, s') \<Rightarrow>
          (case cleanup s' of
             (None, s'') \<Rightarrow> (r, s'')
           | (Some e, s'') \<Rightarrow> (Some e, s'')))"

text \<open>\<^verbatim>\<open>self.progress_bar.setVisible(b)\<close> and \<^verbatim>\<open>self.accept()\<close>: the call, and its
  effect on the dialog when the call returns.\<close>

definition setVisible :: "host \<Rightarrow> bool \<Rightarrow> action" where
  "setVisible h b =
     sequence [call h (ProgressBar_setVisible b), modify (\<lambda>d. d\<lparr>progress_bar_visible := b\<rparr>)]"

definition accept :: "host \<Rightarrow> action" where
  "accept h = sequence [call h Dialog_accept, modify (\<lambda>d. d\<lparr>accepted := True\<rparr>)]"

subsection \<open>The method \<^verbatim>\<open>download_layer\<close>\<close>

definition blad :: string where
  "blad = ''B'' @ [CHR 0xC5, CHR 0x82, CHR 0xC4, CHR 0x85] @ ''d''"

text \<open>Lines 174 to 182: the project's CRS is read, and set under the guard of line 175,
  \<^verbatim>\<open>not project.crs().isValid() or project.crs().authid() == ''\<close>. The \<^verbatim>\<open>or\<close> reads
  the identifier only of a valid CRS.\<close>

definition set_project_crs :: "host \<Rightarrow> action" where
  "set_project_crs h =
     sequence
      [call h QgsProject_instance,
       call h Project_crs,
       call h Crs_isValid,
       if project_crs_isValid h then sequence [call h Project_crs, call h Crs_authid] else skip,
       if \<not> project_crs_isValid h \<or> project_crs_authid h = '''' then
         (let target_crs = QgsCoordinateReferenceSystem ''EPSG:3857''
          in sequence
              [call h (New_crs target_crs),
               call h (Project_setCrs target_crs),
               call h (QMessageBox_information ''Informacja''
                         ''Ustawiono CRS projektu na EPSG:3857 (Web Mercator)'')])
       else skip]"

text \<open>Lines 193 to 214: the view is set on the canvas of \<^verbatim>\<open>self.iface\<close>, when there
  is one.\<close>

definition set_view :: "host \<Rightarrow> dialog \<Rightarrow> action" where
  "set_view h self =
     (case iface self of
        None \<Rightarrow> skip
      | Some _ \<Rightarrow>
          sequence
           [call h Iface_mapCanvas,
            (case py_split CHR '','' (olsztyn_bbox self) of
               [c0, c1, c2, c3] \<Rightarrow>
                 (case py_float c0 of Inl e \<Rightarrow> raise e | Inr x0 \<Rightarrow>
                  case py_float c1 of Inl e \<Rightarrow> raise e | Inr x1 \<Rightarrow>
                  case py_float c2 of Inl e \<Rightarrow> raise e | Inr x2 \<Rightarrow>
                  case py_float c3 of Inl e \<Rightarrow> raise e | Inr x3 \<Rightarrow>
                    (let extent = QgsRectangle x0 x1 x2 x3;
                         canvas_crs = QgsCoordinateReferenceSystem ''EPSG:3857''
                     in sequence
                         [call h (New_rectangle extent),
                          call h (New_crs canvas_crs),
                          call h (Canvas_setDestinationCrs canvas_crs),
                          call h (Canvas_setExtent extent),
                          call h Canvas_refresh,
                          call h (Canvas_zoomToFeatureExtent extent)]))
             | _ \<Rightarrow> skip)])"

text \<open>Lines 188 to 190 and 216 to 222: the text of the success notice.\<close>

definition info_text :: "layer_info \<Rightarrow> string" where
  "info_text li =
     (case info li of
        None \<Rightarrow> ''''
      | Some i \<Rightarrow>
          [CHR 0x0A, CHR 0x0A, CHR 0xE2, CHR 0x84, CHR 0xB9, CHR 0xEF, CHR 0xB8, CHR 0x8F] @
          '' '' @ i)"

definition success_text :: "string \<Rightarrow> layer_info \<Rightarrow> string" where
  "success_text selected_layer li =
     ''Warstwa '' @ [CHR 0x27] @ selected_layer @ [CHR 0x27] @ '' zosta'' @
     [CHR 0xC5, CHR 0x82] @ ''a pomy'' @ [CHR 0xC5, CHR 0x9B] @ ''lnie dodana do projektu.'' @
     [CHR 0x0A, CHR 0x0A] @
     ''CRS warstwy: '' @ crs li @ info_text li @ [CHR 0x0A, CHR 0x0A] @
     ''Widok ustawiony na obszar Olsztyna.''"

text \<open>Lines 173 to 223: the layer is valid.\<close>

definition layer_valid ::
  "host \<Rightarrow> dialog \<Rightarrow> string \<Rightarrow> layer_info \<Rightarrow> qgs_raster_layer \<Rightarrow> action" where
  "layer_valid h self selected_layer li layer =
     sequence
      [set_project_crs h,
       call h QgsProject_instance,
       call h (Project_addMapLayer layer),
       set_view h self,
       call h (QMessageBox_information ''Sukces'' (success_text selected_layer li)),
       accept h]"

text \<open>Lines 225 to 236: the layer is not valid. The conditional expression asks
  \<^verbatim>\<open>layer.error()\<close> first and, when it is truthy, once more for its message.\<close>

definition nieznany_blad :: string where
  "nieznany_blad = ''Nieznany b'' @ [CHR 0xC5, CHR 0x82, CHR 0xC4, CHR 0x85] @ ''d''"

definition failure_title :: string where
  "failure_title = blad @ '' '' @ [CHR 0xC5, CHR 0x82] @ ''adowania warstwy''"

definition failure_reasons :: "string \<Rightarrow> string" where
  "failure_reasons selected_layer =
     ''Nie uda'' @ [CHR 0xC5, CHR 0x82] @ ''o si'' @ [CHR 0xC4, CHR 0x99] @ '' za'' @
     [CHR 0xC5, CHR 0x82] @ ''adowa'' @ [CHR 0xC4, CHR 0x87] @ '' warstwy '' @ [CHR 0x27] @
     selected_layer @ [CHR 0x27] @ ''.'' @ [CHR 0x0A, CHR 0x0A] @
     ''Mo'' @ [CHR 0xC5, CHR 0xBC] @ ''liwe przyczyny:'' @ [CHR 0x0A] @
     [CHR 0xE2, CHR 0x80, CHR 0xA2] @ '' Brak po'' @ [CHR 0xC5, CHR 0x82, CHR 0xC4, CHR 0x85] @
     ''czenia z internetem'' @ [CHR 0x0A] @
     [CHR 0xE2, CHR 0x80, CHR 0xA2] @ '' Serwer kafelk'' @ [CHR 0xC3, CHR 0xB3] @
     ''w tymczasowo niedost'' @ [CHR 0xC4, CHR 0x99] @ ''pny'' @ [CHR 0x0A] @
     [CHR 0xE2, CHR 0x80, CHR 0xA2] @ '' B'' @ [CHR 0xC5, CHR 0x82, CHR 0xC4, CHR 0x99] @
     ''dny URL serwisu'' @ [CHR 0x0A, CHR 0x0A]"

definition szczegoly :: string where
  "szczegoly = ''Szczeg'' @ [CHR 0xC3, CHR 0xB3, CHR 0xC5, CHR 0x82] @ ''y: ''"

definition failure_text :: "string \<Rightarrow> string \<Rightarrow> layer_info \<Rightarrow> string" where
  "failure_text selected_layer error_msg li =
     failure_reasons selected_layer @
     szczegoly @ error_msg @ [CHR 0x0A, CHR 0x0A] @
     ''URL: '' @ url li"

definition layer_invalid :: "host \<Rightarrow> string \<Rightarrow> layer_info \<Rightarrow> qgs_raster_layer \<Rightarrow> action" where
  "layer_invalid h selected_layer li layer =
     sequence
      [call h (Layer_error layer),
       (case layer_error h layer of
          None \<Rightarrow>
            call h (QMessageBox_warning failure_title
                      (failure_text selected_layer nieznany_blad li))
        | Some m \<Rightarrow>
            sequence
             [call h (Layer_error layer),
              call h (Error_message layer),
              call h (QMessageBox_warning failure_title
                        (failure_text selected_layer m li))])]"

text \<open>Lines 157 to 236: the body of the \<^verbatim>\<open>try\<close>.\<close>

definition url_parts :: "layer_info \<Rightarrow> string list" where
  "url_parts li =
     [''type=xyz'',
      ''url='' @ url li,
      ''zmin='' @ str_int (zmin li),
      ''zmax='' @ str_int (zmax li),
      ''crs='' @ crs li]"

definition new_layer :: "string \<Rightarrow> layer_info \<Rightarrow> qgs_raster_layer" where
  "new_layer selected_layer li =
     (let url = join ''&'' (url_parts li) in QgsRasterLayer url selected_layer ''wms'')"

definition try_body :: "host \<Rightarrow> dialog \<Rightarrow> string \<Rightarrow> layer_info \<Rightarrow> action" where
  "try_body h self selected_layer li =
     (if ltype li = ''xyz'' then
        (let layer = new_layer selected_layer li
         in sequence
             [call h (New_layer layer),
              call h (Layer_isValid layer),
              if layer_isValid h layer then layer_valid h self selected_layer li layer
              else layer_invalid h selected_layer li layer])
      else skip)"

text \<open>Lines 238 to 243: the handler.\<close>

definition nieoczekiwany_blad :: string where
  "nieoczekiwany_blad =
     ''Wyst'' @ [CHR 0xC4, CHR 0x85] @ ''pi'' @ [CHR 0xC5, CHR 0x82] @
     '' nieoczekiwany b'' @ [CHR 0xC5, CHR 0x82, CHR 0xC4, CHR 0x85] @ ''d:'' @ [CHR 0x0A]"

definition critical_text :: "py_exception \<Rightarrow> string" where
  "critical_text e = nieoczekiwany_blad @ str e"

definition handler :: "host \<Rightarrow> py_exception \<Rightarrow> action" where
  "handler h e = call h (QMessageBox_critical blad (critical_text e))"

text \<open>The method. It is run on the dialog with an empty log and gives the exception that
  leaves it, if one does, the dialog afterwards, and the calls it made on the host. An entry
  of the table is a record and so never the empty dictionary: \<^verbatim>\<open>not layer_info\<close> holds
  exactly when the lookup found nothing.\<close>

definition download_layer :: "host \<Rightarrow> dialog \<Rightarrow> py_exception option \<times> dialog \<times> call list" where
  "download_layer h self =
     (let selected_layer = current_text self;
          layer_info = get (layers self) selected_layer
      in sequence
          [call h LayerCombo_currentText,
           (case layer_info of
              None \<Rightarrow> call h (QMessageBox_warning blad ''Nie wybrano warstwy.'')
            | Some li \<Rightarrow>
                sequence
                 [setVisible h True,
                  call h (ProgressBar_setRange 0 0),
                  try_finally
                    (try_except (try_body h self selected_layer li) (handler h))
                    (setVisible h False)])]
          (self, []))"

subsection \<open>Reading a log of calls\<close>

text \<open>\<open>raised h pre cs\<close> replays the log \<open>cs\<close>, made after the calls \<open>pre\<close>, against
  the host and gives the exception of the first call that raised, if one did.\<close>

fun raised :: "host \<Rightarrow> call list \<Rightarrow> call list \<Rightarrow> py_exception option" where
  "raised h pre [] = None"
| "raised h pre (c # cs) =
     (case raises h pre c of
        Some e \<Rightarrow> Some e
      | None \<Rightarrow> raised h (pre @ [c]) cs)"

text \<open>The specification's "the project's coordinate reference system is unset", read from its
  words and not from the guard of the source: the project has no valid coordinate reference
  system. A project whose CRS is valid has one set, whether or not that CRS carries an
  authority identifier (a CRS defined by the user from a projection string has none).\<close>

definition project_crs_unset :: "host \<Rightarrow> bool" where
  "project_crs_unset h \<longleftrightarrow> \<not> project_crs_isValid h"

text \<open>Two properties of a statement, used to reason about a run without unfolding it. A
  \<open>traced\<close> statement leaves the dialog alone, only extends the log, and ends with exactly
  the exception that its own calls raised. A \<open>guarded\<close> statement may change the dialog,
  but only when it ends normally.\<close>

definition traced :: "host \<Rightarrow> action \<Rightarrow> bool" where
  "traced h a \<longleftrightarrow>
     (\<forall>d cs r d' cs'. a (d, cs) = (r, d', cs') \<longrightarrow>
        d' = d \<and> (\<exists>ext. cs' = cs @ ext \<and> raised h cs ext = r))"

definition guarded :: "host \<Rightarrow> action \<Rightarrow> bool" where
  "guarded h a \<longleftrightarrow>
     (\<forall>d cs r d' cs'. a (d, cs) = (r, d', cs') \<longrightarrow>
        (r \<noteq> None \<longrightarrow> d' = d) \<and> (\<exists>ext. cs' = cs @ ext \<and> raised h cs ext = r))"

text \<open>A test double for the host: no call on it raises; the arguments fix what it reports of
  a constructed layer and of the project's CRS.\<close>

definition stub :: "bool \<Rightarrow> string option \<Rightarrow> bool \<Rightarrow> string \<Rightarrow> host" where
  "stub valid err crs_valid authid =
     \<lparr>raises = (\<lambda>cs c. None),
      layer_isValid = (\<lambda>l. valid),
      layer_error = (\<lambda>l. err),
      project_crs_isValid = crs_valid,
      project_crs_authid = authid\<rparr>"

text \<open>The same double with one call that raises.\<close>

definition stub_raising :: "call \<Rightarrow> py_exception \<Rightarrow> host" where
  "stub_raising c e =
     (stub True None False '''')\<lparr>raises := (\<lambda>cs c'. if c' = c then Some e else None)\<rparr>"

section \<open>Properties\<close>

subsection \<open>Auxiliary facts\<close>

lemmas run_defs = call_def skip_def raise_def modify_def try_except_def try_finally_def
  setVisible_def accept_def

lemma catalog_entry:
  assumes "get (layers (init i)) name = Some li"
  shows "ltype li = ''xyz''" and "crs li = ''EPSG:3857''" and "info li \<noteq> None"
  using assms by (auto simp: get_def init_def catalog_def split: if_splits)

lemma catalog_urls:
  "list_all (\<lambda>e. url (snd e) \<noteq> '''' \<and> sublist ''{z}'' (url (snd e)) \<and>
                 sublist ''{x}'' (url (snd e)) \<and> sublist ''{y}'' (url (snd e))) catalog"
  by (simp add: catalog_def sublist_Cons_right)

lemma raised_append:
  "raised h pre (xs @ ys) =
     (case raised h pre xs of Some e \<Rightarrow> Some e | None \<Rightarrow> raised h (pre @ xs) ys)"
  by (induction xs arbitrary: pre) (auto split: option.splits)

lemma tracedD:
  assumes "traced h a" and "a (d, cs) = (r, d', cs')"
  obtains ext where "d' = d" and "cs' = cs @ ext" and "raised h cs ext = r"
  using assms unfolding traced_def by blast

lemma guardedD:
  assumes "guarded h a" and "a (d, cs) = (r, d', cs')"
  obtains ext where "r \<noteq> None \<longrightarrow> d' = d" and "cs' = cs @ ext" and "raised h cs ext = r"
proof -
  from assms have "(r \<noteq> None \<longrightarrow> d' = d) \<and> (\<exists>ext. cs' = cs @ ext \<and> raised h cs ext = r)"
    unfolding guarded_def by simp
  with that show thesis by blast
qed

lemma traced_call: "traced h (call h c)"
  by (auto simp: traced_def call_def split: option.splits)

lemma traced_skip: "traced h skip"
  by (simp add: traced_def skip_def)

lemma traced_sequence:
  assumes "\<forall>a\<in>set as. traced h a"
  shows "traced h (sequence as)"
  using assms
proof (induction as)
  case Nil
  show ?case by (simp add: traced_def)
next
  case (Cons a as)
  then have a: "traced h a" and as: "traced h (sequence as)" by simp_all
  show ?case
    unfolding traced_def
  proof (intro allI impI)
    fix d cs r d' cs'
    assume run: "sequence (a # as) (d, cs) = (r, d', cs')"
    obtain r1 d1 cs1 where a1: "a (d, cs) = (r1, d1, cs1)" by (cases "a (d, cs)") auto
    from tracedD[OF a a1] obtain e1 where e1: "d1 = d" "cs1 = cs @ e1" "raised h cs e1 = r1"
      by blast
    show "d' = d \<and> (\<exists>ext. cs' = cs @ ext \<and> raised h cs ext = r)"
    proof (cases r1)
      case None
      with run a1 have "sequence as (d1, cs1) = (r, d', cs')" by simp
      from tracedD[OF as this] obtain e2 where e2: "d' = d1" "cs' = cs1 @ e2" "raised h cs1 e2 = r"
        by blast
      from e1 e2 None have "cs' = cs @ (e1 @ e2)" "raised h cs (e1 @ e2) = r"
        by (simp_all add: raised_append)
      with e1 e2 show ?thesis by blast
    next
      case (Some e)
      with run a1 have "r = r1" "d' = d1" "cs' = cs1" by simp_all
      with e1 show ?thesis by auto
    qed
  qed
qed

lemma traced_guarded: "traced h a \<Longrightarrow> guarded h a"
  by (simp add: traced_def guarded_def)

lemma guarded_then:
  assumes a: "traced h a" and b: "guarded h b"
  shows "guarded h (sequence [a, b])"
  unfolding guarded_def
proof (intro allI impI)
  fix d cs r d' cs'
  assume run: "sequence [a, b] (d, cs) = (r, d', cs')"
  obtain r1 d1 cs1 where a1: "a (d, cs) = (r1, d1, cs1)" by (cases "a (d, cs)") auto
  from tracedD[OF a a1] obtain e1 where e1: "d1 = d" "cs1 = cs @ e1" "raised h cs e1 = r1"
    by blast
  show "(r \<noteq> None \<longrightarrow> d' = d) \<and> (\<exists>ext. cs' = cs @ ext \<and> raised h cs ext = r)"
  proof (cases r1)
    case None
    with run a1 have "b (d1, cs1) = (r, d', cs')" by (auto split: prod.splits option.splits)
    from guardedD[OF b this] obtain e2 where e2: "r \<noteq> None \<longrightarrow> d' = d1" "cs' = cs1 @ e2"
      "raised h cs1 e2 = r"
      by blast
    from e1 e2 None have "cs' = cs @ (e1 @ e2)" "raised h cs (e1 @ e2) = r"
      by (simp_all add: raised_append)
    with e1 e2 show ?thesis by blast
  next
    case (Some e)
    with run a1 have "r = r1" "d' = d1" "cs' = cs1" by simp_all
    with e1 show ?thesis by auto
  qed
qed

lemma guarded_accept: "guarded h (accept h)"
  by (auto simp: guarded_def accept_def call_def modify_def split: option.splits)

lemma sequence_snoc: "sequence (as @ [b]) = sequence [sequence as, b]"
proof
  fix s
  show "sequence (as @ [b]) s = sequence [sequence as, b] s"
    by (induction as arbitrary: s) (auto split: prod.splits option.splits)
qed

lemma traced_set_project_crs: "traced h (set_project_crs h)"
  unfolding set_project_crs_def Let_def
  by (intro traced_sequence) (simp add: traced_call traced_skip traced_sequence)

lemma traced_set_view: "traced h (set_view h ((init i)\<lparr>current_text := name\<rparr>))"
  unfolding set_view_def
  by (cases i)
     (simp_all add: init_def py_float_def digit_val_def Let_def traced_skip traced_call
        traced_sequence)

lemma traced_layer_invalid: "traced h (layer_invalid h name li layer)"
  unfolding layer_invalid_def
  by (intro traced_sequence) (simp add: traced_call traced_sequence split: option.split)

lemma guarded_layer_valid:
  "guarded h (layer_valid h ((init i)\<lparr>current_text := name\<rparr>) name li layer)"
proof -
  let ?d = "(init i)\<lparr>current_text := name\<rparr>"
  let ?as = "[set_project_crs h, call h QgsProject_instance, call h (Project_addMapLayer layer),
       set_view h ?d,
       call h (QMessageBox_information ''Sukces'' (success_text name li))]"
  have "traced h (sequence ?as)"
    by (intro traced_sequence) (simp add: traced_call traced_set_project_crs traced_set_view)
  then have "guarded h (sequence [sequence ?as, accept h])"
    by (rule guarded_then) (rule guarded_accept)
  then have "guarded h (sequence (?as @ [accept h]))"
    by (simp only: sequence_snoc)
  then show ?thesis by (simp add: layer_valid_def)
qed

lemma guarded_try_body:
  "guarded h (try_body h ((init i)\<lparr>current_text := name\<rparr>) name li)"
proof (cases "ltype li = ''xyz''")
  case False
  then show ?thesis by (simp add: try_body_def traced_guarded traced_skip)
next
  case True
  let ?d = "(init i)\<lparr>current_text := name\<rparr>"
  let ?l = "new_layer name li"
  let ?b = "if layer_isValid h ?l then layer_valid h ?d name li ?l
            else layer_invalid h name li ?l"
  have b: "guarded h ?b"
    by (simp add: guarded_layer_valid traced_guarded traced_layer_invalid)
  have "traced h (sequence [call h (New_layer ?l), call h (Layer_isValid ?l)])"
    by (intro traced_sequence) (simp add: traced_call)
  then have "guarded h (sequence [sequence [call h (New_layer ?l), call h (Layer_isValid ?l)], ?b])"
    using b by (rule guarded_then)
  then have "guarded h (sequence ([call h (New_layer ?l), call h (Layer_isValid ?l)] @ [?b]))"
    by (simp only: sequence_snoc)
  with True show ?thesis by (simp add: try_body_def Let_def)
qed

subsection \<open>The catalog and the fixed extent\<close>

text \<open>Claim C6. Every display name that is a key of the catalog is looked up to a definition
  whose URL template is not empty and contains each of \<^verbatim>\<open>{z}\<close>, \<^verbatim>\<open>{x}\<close> and
  \<^verbatim>\<open>{y}\<close>; the lookup of any other name gives \<open>None\<close>.\<close>

theorem catalog_lookup:
  "(name \<in> set (map fst (layers (init i))) \<longrightarrow>
      (\<exists>li. get (layers (init i)) name = Some li \<and> url li \<noteq> '''' \<and>
            sublist ''{z}'' (url li) \<and> sublist ''{x}'' (url li) \<and> sublist ''{y}'' (url li))) \<and>
   (name \<notin> set (map fst (layers (init i))) \<longrightarrow> get (layers (init i)) name = None)"
proof (intro conjI impI)
  assume "name \<in> set (map fst (layers (init i)))"
  then obtain li where li: "map_of catalog name = Some li"
    by (auto simp: init_def dest!: weak_map_of_SomeI)
  then have "(name, li) \<in> set catalog" by (rule map_of_SomeD)
  with catalog_urls have "url li \<noteq> '''' \<and>
      sublist ''{z}'' (url li) \<and> sublist ''{x}'' (url li) \<and> sublist ''{y}'' (url li)"
    by (auto simp: list_all_iff)
  with li show "\<exists>li. get (layers (init i)) name = Some li \<and> url li \<noteq> '''' \<and>
      sublist ''{z}'' (url li) \<and> sublist ''{x}'' (url li) \<and> sublist ''{y}'' (url li)"
    by (simp add: get_def init_def)
next
  assume "name \<notin> set (map fst (layers (init i)))"
  then show "get (layers (init i)) name = None"
    by (simp add: get_def init_def map_of_eq_None_iff)
qed

theorem catalog_lookup_witness:
  "''Transport'' \<in> set (map fst (layers (init None))) \<and>
   (\<exists>li. get (layers (init None)) ''Transport'' = Some li \<and> url li \<noteq> '''' \<and>
         sublist ''{z}'' (url li) \<and> sublist ''{x}'' (url li) \<and> sublist ''{y}'' (url li)) \<and>
   ''Satelita'' \<notin> set (map fst (layers (init None))) \<and>
   get (layers (init None)) ''Satelita'' = None"
proof -
  have known: "''Transport'' \<in> set (map fst (layers (init None)))"
    by (simp add: init_def catalog_def)
  have unknown: "''Satelita'' \<notin> set (map fst (layers (init None)))"
    by (simp add: init_def catalog_def)
  from known unknown
    catalog_lookup [of "''Transport''" None] catalog_lookup [of "''Satelita''" None]
  show ?thesis by blast
qed

text \<open>Claim C7. Splitting the fixed extent string on the comma gives exactly four components;
  they are read as west 2272000, south 7129000, east 2288000 and north 7145000, with west
  below east and south below north.\<close>

theorem fixed_extent_parses:
  "py_split CHR '','' (olsztyn_bbox (init i)) =
     [''2272000'', ''7129000'', ''2288000'', ''7145000''] \<and>
   length (py_split CHR '','' (olsztyn_bbox (init i))) = 4 \<and>
   (\<exists>west south east north.
      map py_float (py_split CHR '','' (olsztyn_bbox (init i))) =
        [Inr west, Inr south, Inr east, Inr north] \<and>
      west = 2272000 \<and> south = 7129000 \<and> east = 2288000 \<and> north = 7145000 \<and>
      west < east \<and> south < north)"
  by (simp add: init_def py_float_def digit_val_def)

subsection \<open>An unknown selection\<close>

text \<open>Claim C3. When the selected name is not a key of the table, the method leaves the dialog
  as it was and calls nothing on the host but the combo box and the warning box: no layer is
  constructed, the project and the canvas are not touched. This holds whatever the host
  raises. When reading the combo box does not raise, the warning is shown.\<close>

theorem unknown_name_warns_only:
  assumes "current_text d \<notin> set (map fst (layers d))"
  shows "(case download_layer h d of
            (r, d', cs) \<Rightarrow>
              d' = d \<and>
              set cs \<subseteq> {LayerCombo_currentText,
                        QMessageBox_warning blad ''Nie wybrano warstwy.''} \<and>
              (raises h [] LayerCombo_currentText = None \<longrightarrow>
                 cs = [LayerCombo_currentText,
                       QMessageBox_warning blad ''Nie wybrano warstwy.''] \<and>
                 r = raises h [LayerCombo_currentText]
                       (QMessageBox_warning blad ''Nie wybrano warstwy.'')))"
proof -
  from assms have "get (layers d) (current_text d) = None"
    by (simp add: get_def map_of_eq_None_iff)
  then show ?thesis
    by (simp add: download_layer_def run_defs Let_def split: option.split)
qed


theorem unknown_name_warns_only_witness:
  "current_text ((init None)\<lparr>current_text := ''Satelita''\<rparr>) \<notin>
     set (map fst (layers ((init None)\<lparr>current_text := ''Satelita''\<rparr>))) \<and>
   raises (stub True None False '''') [] LayerCombo_currentText = None \<and>
   download_layer (stub True None False '''') ((init None)\<lparr>current_text := ''Satelita''\<rparr>) =
     (None, (init None)\<lparr>current_text := ''Satelita''\<rparr>,
      [LayerCombo_currentText, QMessageBox_warning blad ''Nie wybrano warstwy.''])"
proof -
  let ?d = "(init None)\<lparr>current_text := ''Satelita''\<rparr>"
  let ?h = "stub True None False ''''"
  have unknown: "current_text ?d \<notin> set (map fst (layers ?d))"
    by (simp add: init_def catalog_def)
  have quiet: "raises ?h [] LayerCombo_currentText = None"
    by (simp add: stub_def)
  from unknown_name_warns_only [OF unknown, of ?h] quiet
  have "download_layer ?h ?d =
     (None, ?d, [LayerCombo_currentText, QMessageBox_warning blad ''Nie wybrano warstwy.''])"
    by (cases "download_layer ?h ?d") (auto simp: stub_def)
  with unknown quiet show ?thesis by blast
qed

subsection \<open>A successful run\<close>

text \<open>Claim C1. With the selection \<^verbatim>\<open>Standardowa mapa OSM\<close>, a canvas at hand, and a host on
  which no call raises and every constructed layer is valid, the method returns normally
  having called \<^verbatim>\<open>addMapLayer\<close> exactly once and \<^verbatim>\<open>setExtent\<close> exactly once, the
  latter with the rectangle (2272000, 7129000, 2288000, 7145000). After the redraw the method
  also asks the canvas once to zoom to that same rectangle.\<close>

theorem osm_selection_adds_layer_and_sets_extent:
  assumes "\<And>cs c. raises h cs c = None" and "\<And>l. layer_isValid h l"
  shows "(case download_layer h
                 ((init (Some QgisInterface))\<lparr>current_text := ''Standardowa mapa OSM''\<rparr>) of
            (r, d', cs) \<Rightarrow>
              r = None \<and>
              length (filter is_addMapLayer cs) = 1 \<and>
              filter is_setExtent cs =
                [Canvas_setExtent (QgsRectangle 2272000 7129000 2288000 7145000)] \<and>
              filter is_zoomToFeatureExtent cs =
                [Canvas_zoomToFeatureExtent (QgsRectangle 2272000 7129000 2288000 7145000)])"
  using assms
  by (simp add: download_layer_def run_defs get_def init_def catalog_def try_body_def
        layer_valid_def set_project_crs_def set_view_def py_float_def digit_val_def Let_def)

theorem osm_selection_adds_layer_and_sets_extent_witness:
  "(\<forall>cs c. raises (stub True None False '''') cs c = None) \<and>
   (\<forall>l. layer_isValid (stub True None False '''') l) \<and>
   (case download_layer (stub True None False '''')
           ((init (Some QgisInterface))\<lparr>current_text := ''Standardowa mapa OSM''\<rparr>) of
      (r, d', cs) \<Rightarrow>
        r = None \<and>
        length (filter is_addMapLayer cs) = 1 \<and>
        filter is_setExtent cs =
          [Canvas_setExtent (QgsRectangle 2272000 7129000 2288000 7145000)] \<and>
        filter is_zoomToFeatureExtent cs =
          [Canvas_zoomToFeatureExtent (QgsRectangle 2272000 7129000 2288000 7145000)])"
proof -
  have quiet: "\<And>cs c. raises (stub True None False '''') cs c = None"
    by (simp add: stub_def)
  have valid: "\<And>l. layer_isValid (stub True None False '''') l"
    by (simp add: stub_def)
  from osm_selection_adds_layer_and_sets_extent [OF quiet valid] quiet valid
  show ?thesis by blast
qed

subsection \<open>Runs on a host where no call raises\<close>

lemma init_fields:
  "iface (init i) = i"
  "olsztyn_bbox (init i) = ''2272000,7129000,2288000,7145000''"
  "layers (init i) = catalog"
  "progress_bar_visible (init i) = False"
  "accepted (init i) = False"
  by (simp_all add: init_def)

lemma quiet_set_project_crs:
  assumes "\<And>cs c. raises h cs c = None"
  shows "set_project_crs h (d, cs) =
    (None, d,
     cs @ [QgsProject_instance, Project_crs, Crs_isValid] @
     (if project_crs_isValid h then [Project_crs, Crs_authid] else []) @
     (if \<not> project_crs_isValid h \<or> project_crs_authid h = ''''
      then [New_crs (QgsCoordinateReferenceSystem ''EPSG:3857''),
            Project_setCrs (QgsCoordinateReferenceSystem ''EPSG:3857''),
            QMessageBox_information ''Informacja''
              ''Ustawiono CRS projektu na EPSG:3857 (Web Mercator)'']
      else []))"
  using assms by (simp add: set_project_crs_def run_defs Let_def)

lemma quiet_set_view:
  assumes "\<And>cs c. raises h cs c = None"
  shows "set_view h ((init i)\<lparr>current_text := name\<rparr>) (d, cs) =
    (None, d,
     cs @ (case i of
             None \<Rightarrow> []
           | Some c \<Rightarrow>
               [Iface_mapCanvas,
                New_rectangle (QgsRectangle 2272000 7129000 2288000 7145000),
                New_crs (QgsCoordinateReferenceSystem ''EPSG:3857''),
                Canvas_setDestinationCrs (QgsCoordinateReferenceSystem ''EPSG:3857''),
                Canvas_setExtent (QgsRectangle 2272000 7129000 2288000 7145000),
                Canvas_refresh,
                Canvas_zoomToFeatureExtent (QgsRectangle 2272000 7129000 2288000 7145000)]))"
  using assms
  by (cases i) (simp_all add: set_view_def init_def run_defs Let_def py_float_def digit_val_def)

lemma quiet_layer_valid:
  assumes "\<And>cs c. raises h cs c = None"
  shows "layer_valid h ((init i)\<lparr>current_text := name\<rparr>) name li layer (d, cs) =
    (None, d\<lparr>accepted := True\<rparr>,
     cs @ [QgsProject_instance, Project_crs, Crs_isValid] @
     (if project_crs_isValid h then [Project_crs, Crs_authid] else []) @
     (if \<not> project_crs_isValid h \<or> project_crs_authid h = ''''
      then [New_crs (QgsCoordinateReferenceSystem ''EPSG:3857''),
            Project_setCrs (QgsCoordinateReferenceSystem ''EPSG:3857''),
            QMessageBox_information ''Informacja''
              ''Ustawiono CRS projektu na EPSG:3857 (Web Mercator)'']
      else []) @
     [QgsProject_instance, Project_addMapLayer layer] @
     (case i of
        None \<Rightarrow> []
      | Some c \<Rightarrow>
          [Iface_mapCanvas,
           New_rectangle (QgsRectangle 2272000 7129000 2288000 7145000),
           New_crs (QgsCoordinateReferenceSystem ''EPSG:3857''),
           Canvas_setDestinationCrs (QgsCoordinateReferenceSystem ''EPSG:3857''),
           Canvas_setExtent (QgsRectangle 2272000 7129000 2288000 7145000),
           Canvas_refresh,
           Canvas_zoomToFeatureExtent (QgsRectangle 2272000 7129000 2288000 7145000)]) @
     [QMessageBox_information ''Sukces'' (success_text name li), Dialog_accept])"
  using assms
  by (simp add: layer_valid_def quiet_set_project_crs quiet_set_view run_defs)

lemma quiet_layer_invalid:
  assumes "\<And>cs c. raises h cs c = None"
  shows "layer_invalid h name li layer (d, cs) =
    (None, d,
     cs @ (case layer_error h layer of
             None \<Rightarrow>
               [Layer_error layer,
                QMessageBox_warning failure_title (failure_text name nieznany_blad li)]
           | Some m \<Rightarrow>
               [Layer_error layer, Layer_error layer, Error_message layer,
                QMessageBox_warning failure_title (failure_text name m li)]))"
  using assms
  by (simp add: layer_invalid_def run_defs split: option.split)

lemma sequence_last:
  assumes "sequence (as @ [b]) s = (None, s')"
  shows "\<exists>s1. b s1 = (None, s')"
  using assms
proof (induction as arbitrary: s)
  case Nil
  then have "b s = (None, s')"
    by (cases "b s") (auto split: option.splits)
  then show ?case by blast
next
  case (Cons a as)
  then show ?case by (cases "a s") (auto split: option.splits)
qed

lemma try_finally_setVisible:
  assumes "try_finally body (setVisible h v) s = (None, d', cs)"
  shows "progress_bar_visible d' = v \<and> cs \<noteq> [] \<and> last cs = ProgressBar_setVisible v"
  using assms
  by (auto simp: try_finally_def setVisible_def call_def modify_def
           split: prod.splits option.splits)

text \<open>Claim C5. For every definition of the catalog, on a host where no call raises, the method
  constructs exactly one raster layer, and the connection string it passes is the five fields
  \<^verbatim>\<open>type=xyz\<close>, \<^verbatim>\<open>url=\<close> with the template, \<^verbatim>\<open>zmin=\<close> and \<^verbatim>\<open>zmax=\<close> with
  the zoom bounds in decimal, and \<^verbatim>\<open>crs=\<close> with the identifier, in this order and joined by
  \<^verbatim>\<open>&\<close>, the values being those of the selected definition.\<close>

theorem connection_string_fields:
  assumes quiet: "\<And>cs c. raises h cs c = None"
    and li: "get (layers (init i)) name = Some li"
  shows "(case download_layer h ((init i)\<lparr>current_text := name\<rparr>) of
            (r, d', cs) \<Rightarrow>
              filter is_new_layer cs =
                [New_layer
                   (QgsRasterLayer
                      (''type=xyz'' @ ''&'' @ ''url='' @ url li @ ''&'' @
                       ''zmin='' @ str_int (zmin li) @ ''&'' @
                       ''zmax='' @ str_int (zmax li) @ ''&'' @ ''crs='' @ crs li)
                      name ''wms'')])"
  using li catalog_entry(1)[OF li]
  by (simp add: download_layer_def Let_def try_body_def quiet_layer_valid[OF quiet]
        quiet_layer_invalid[OF quiet] run_defs quiet handler_def new_layer_def url_parts_def
        split: option.split)

theorem connection_string_fields_witness:
  "(\<forall>cs c. raises (stub True None False '''') cs c = None) \<and>
   get (layers (init None)) ''Standardowa mapa OSM'' = Some (snd (hd catalog)) \<and>
   (case download_layer (stub True None False '''')
           ((init None)\<lparr>current_text := ''Standardowa mapa OSM''\<rparr>) of
      (r, d', cs) \<Rightarrow>
        filter is_new_layer cs =
          [New_layer
             (QgsRasterLayer
                ''type=xyz&url=https://tile.openstreetmap.org/{z}/{x}/{y}.png&zmin=0&zmax=19&crs=EPSG:3857''
                ''Standardowa mapa OSM'' ''wms'')])"
proof -
  have quiet: "\<And>cs c. raises (stub True None False '''') cs c = None"
    by (simp add: stub_def)
  have li: "get (layers (init None)) ''Standardowa mapa OSM'' = Some (snd (hd catalog))"
    by (simp add: get_def init_def catalog_def)
  have fields: "url (snd (hd catalog)) = ''https://tile.openstreetmap.org/{z}/{x}/{y}.png''"
    "zmin (snd (hd catalog)) = 0" "zmax (snd (hd catalog)) = 19"
    "crs (snd (hd catalog)) = ''EPSG:3857''"
    by (simp_all add: catalog_def)
  have digits: "str_int 0 = ''0''" "str_int 19 = ''19''"
    by (simp_all add: str_int_def str_nat.simps digit_char_def)
  from connection_string_fields [OF quiet li] quiet li show ?thesis
    by (simp add: fields digits)
qed

text \<open>Claim C2, as amended. For every definition of the catalog, on a host where no call raises
  and the constructed layer is valid, the guard of line 175 decides, in terms of what the
  project reports of its CRS:
  \<^item> the CRS is not valid: \<^verbatim>\<open>setCrs\<close> is called exactly once, with the CRS of the
    definition's identifier, and the user is told so before the success notice;
  \<^item> the CRS is valid and its authority identifier is empty: the same single call and the
    same notice, so a project CRS that is set but bears no identifier is replaced;
  \<^item> the CRS is valid and its authority identifier is not empty: \<^verbatim>\<open>setCrs\<close> is not
    called and the success notice is the only one.
  The source passes the literal \<^verbatim>\<open>EPSG:3857\<close>, which is the identifier of every
  definition of the catalog.\<close>

theorem project_crs_set_by_guard:
  assumes quiet: "\<And>cs c. raises h cs c = None"
    and li: "get (layers (init i)) name = Some li"
    and valid: "layer_isValid h (new_layer name li)"
  shows "(case download_layer h ((init i)\<lparr>current_text := name\<rparr>) of
            (r, d', cs) \<Rightarrow>
              (\<not> project_crs_isValid h \<longrightarrow>
                 filter is_setCrs cs = [Project_setCrs (QgsCoordinateReferenceSystem (crs li))] \<and>
                 filter is_information cs =
                   [QMessageBox_information ''Informacja''
                      ''Ustawiono CRS projektu na EPSG:3857 (Web Mercator)'',
                    QMessageBox_information ''Sukces'' (success_text name li)]) \<and>
              (project_crs_isValid h \<and> project_crs_authid h = '''' \<longrightarrow>
                 filter is_setCrs cs = [Project_setCrs (QgsCoordinateReferenceSystem (crs li))] \<and>
                 filter is_information cs =
                   [QMessageBox_information ''Informacja''
                      ''Ustawiono CRS projektu na EPSG:3857 (Web Mercator)'',
                    QMessageBox_information ''Sukces'' (success_text name li)]) \<and>
              (project_crs_isValid h \<and> project_crs_authid h \<noteq> '''' \<longrightarrow>
                 filter is_setCrs cs = [] \<and>
                 filter is_information cs =
                   [QMessageBox_information ''Sukces'' (success_text name li)]))"
  using li catalog_entry[OF li] valid
  by (cases i)
     (simp_all add: download_layer_def Let_def try_body_def quiet_layer_valid[OF quiet]
        run_defs quiet handler_def)

theorem project_crs_set_by_guard_witness:
  "(\<forall>cs c. raises (stub True None False '''') cs c = None) \<and>
   (\<forall>cs c. raises (stub True None True '''') cs c = None) \<and>
   (\<forall>cs c. raises (stub True None True ''EPSG:2180'') cs c = None) \<and>
   get (layers (init None)) ''Standardowa mapa OSM'' = Some (snd (hd catalog)) \<and>
   layer_isValid (stub True None False '''')
     (new_layer ''Standardowa mapa OSM'' (snd (hd catalog))) \<and>
   layer_isValid (stub True None True '''')
     (new_layer ''Standardowa mapa OSM'' (snd (hd catalog))) \<and>
   layer_isValid (stub True None True ''EPSG:2180'')
     (new_layer ''Standardowa mapa OSM'' (snd (hd catalog))) \<and>
   \<not> project_crs_isValid (stub True None False '''') \<and>
   filter is_setCrs
     (snd (snd (download_layer (stub True None False '''')
                  ((init None)\<lparr>current_text := ''Standardowa mapa OSM''\<rparr>)))) =
     [Project_setCrs (QgsCoordinateReferenceSystem ''EPSG:3857'')] \<and>
   project_crs_isValid (stub True None True '''') \<and>
   project_crs_authid (stub True None True '''') = '''' \<and>
   filter is_setCrs
     (snd (snd (download_layer (stub True None True '''')
                  ((init None)\<lparr>current_text := ''Standardowa mapa OSM''\<rparr>)))) =
     [Project_setCrs (QgsCoordinateReferenceSystem ''EPSG:3857'')] \<and>
   project_crs_isValid (stub True None True ''EPSG:2180'') \<and>
   project_crs_authid (stub True None True ''EPSG:2180'') \<noteq> '''' \<and>
   filter is_setCrs
     (snd (snd (download_layer (stub True None True ''EPSG:2180'')
                  ((init None)\<lparr>current_text := ''Standardowa mapa OSM''\<rparr>)))) = []"
proof -
  let ?h0 = "stub True None False ''''"
  let ?h1 = "stub True None True ''''"
  let ?h2 = "stub True None True ''EPSG:2180''"
  let ?li = "snd (hd catalog)"
  have quiet0: "\<And>cs c. raises ?h0 cs c = None"
    and quiet1: "\<And>cs c. raises ?h1 cs c = None"
    and quiet2: "\<And>cs c. raises ?h2 cs c = None"
    by (simp_all add: stub_def)
  have li: "get (layers (init None)) ''Standardowa mapa OSM'' = Some ?li"
    by (simp add: get_def init_def catalog_def)
  have valid0: "layer_isValid ?h0 (new_layer ''Standardowa mapa OSM'' ?li)"
    and valid1: "layer_isValid ?h1 (new_layer ''Standardowa mapa OSM'' ?li)"
    and valid2: "layer_isValid ?h2 (new_layer ''Standardowa mapa OSM'' ?li)"
    by (simp_all add: stub_def)
  have crs0: "\<not> project_crs_isValid ?h0"
    and crs1: "project_crs_isValid ?h1" "project_crs_authid ?h1 = ''''"
    and crs2: "project_crs_isValid ?h2" "project_crs_authid ?h2 \<noteq> ''''"
    by (simp_all add: stub_def)
  have crs: "crs ?li = ''EPSG:3857''"
    by (simp add: catalog_def)
  from project_crs_set_by_guard [OF quiet0 li valid0]
    project_crs_set_by_guard [OF quiet1 li valid1]
    project_crs_set_by_guard [OF quiet2 li valid2]
    quiet0 quiet1 quiet2 li valid0 valid1 valid2 crs0 crs1 crs2
  show ?thesis
    by (simp add: crs case_prod_beta)
qed

text \<open>The claim as it was stated fails on a project whose CRS is valid, hence set, and has no
  authority identifier: the layer is valid, no call raises, and \<^verbatim>\<open>setCrs\<close> is called once
  all the same.\<close>

theorem project_crs_set_counterexample:
  "layer_isValid (stub True None True '''')
     (new_layer ''Standardowa mapa OSM'' (snd (hd catalog))) \<and>
   get (layers (init None)) ''Standardowa mapa OSM'' = Some (snd (hd catalog)) \<and>
   \<not> project_crs_unset (stub True None True '''') \<and>
   fst (download_layer (stub True None True '''')
          ((init None)\<lparr>current_text := ''Standardowa mapa OSM''\<rparr>)) = None \<and>
   filter is_setCrs
     (snd (snd (download_layer (stub True None True '''')
                  ((init None)\<lparr>current_text := ''Standardowa mapa OSM''\<rparr>)))) =
     [Project_setCrs (QgsCoordinateReferenceSystem ''EPSG:3857'')] \<and>
   length (filter is_setCrs
     (snd (snd (download_layer (stub True None True '''')
                  ((init None)\<lparr>current_text := ''Standardowa mapa OSM''\<rparr>))))) \<noteq> 0"
  by (simp add: download_layer_def run_defs get_def init_def catalog_def try_body_def
        layer_valid_def set_project_crs_def set_view_def Let_def stub_def handler_def
        project_crs_unset_def)

text \<open>Claim C10. When the dialog was built with no host interface and the constructed layer is
  valid, on a host where no call raises, the layer is still registered with the project, the
  success notice is shown and the dialog is closed, and nothing is called on a map canvas:
  no \<^verbatim>\<open>mapCanvas\<close>, \<^verbatim>\<open>setDestinationCrs\<close>, \<^verbatim>\<open>setExtent\<close>, \<^verbatim>\<open>refresh\<close> or
  \<^verbatim>\<open>zoomToFeatureExtent\<close>. The success notice all the same ends with the sentence that the
  view was set to the area of Olsztyn.\<close>

theorem no_iface_no_canvas_calls:
  assumes quiet: "\<And>cs c. raises h cs c = None"
    and li: "get (layers (init None)) name = Some li"
    and valid: "layer_isValid h (new_layer name li)"
  shows "(case download_layer h ((init None)\<lparr>current_text := name\<rparr>) of
            (r, d', cs) \<Rightarrow>
              r = None \<and>
              filter is_addMapLayer cs = [Project_addMapLayer (new_layer name li)] \<and>
              QMessageBox_information ''Sukces'' (success_text name li) \<in> set cs \<and>
              suffix ''Widok ustawiony na obszar Olsztyna.'' (success_text name li) \<and>
              filter is_accept cs = [Dialog_accept] \<and>
              accepted d' \<and>
              filter is_mapCanvas cs = [] \<and>
              filter is_setDestinationCrs cs = [] \<and>
              filter is_setExtent cs = [] \<and>
              filter is_refresh cs = [] \<and>
              filter is_zoomToFeatureExtent cs = [])"
proof -
  have msg: "suffix ''Widok ustawiony na obszar Olsztyna.'' (success_text name li)"
    unfolding success_text_def by (intro suffix_appendI) simp
  show ?thesis
    using li catalog_entry(1)[OF li] valid msg
    by (simp add: download_layer_def Let_def try_body_def quiet_layer_valid[OF quiet]
          run_defs quiet handler_def init_fields(5))
qed

theorem no_iface_no_canvas_calls_witness:
  "(\<forall>cs c. raises (stub True None False '''') cs c = None) \<and>
   get (layers (init None)) ''Standardowa mapa OSM'' = Some (snd (hd catalog)) \<and>
   layer_isValid (stub True None False '''')
     (new_layer ''Standardowa mapa OSM'' (snd (hd catalog))) \<and>
   (case download_layer (stub True None False '''')
           ((init None)\<lparr>current_text := ''Standardowa mapa OSM''\<rparr>) of
      (r, d', cs) \<Rightarrow>
        r = None \<and>
        filter is_addMapLayer cs =
          [Project_addMapLayer (new_layer ''Standardowa mapa OSM'' (snd (hd catalog)))] \<and>
        filter is_accept cs = [Dialog_accept] \<and> accepted d' \<and>
        filter is_mapCanvas cs = [] \<and> filter is_setDestinationCrs cs = [] \<and>
        filter is_setExtent cs = [] \<and> filter is_refresh cs = [] \<and>
        filter is_zoomToFeatureExtent cs = [])"
proof -
  let ?h = "stub True None False ''''"
  have quiet: "\<And>cs c. raises ?h cs c = None"
    by (simp add: stub_def)
  have li: "get (layers (init None)) ''Standardowa mapa OSM'' = Some (snd (hd catalog))"
    by (simp add: get_def init_def catalog_def)
  have valid: "layer_isValid ?h (new_layer ''Standardowa mapa OSM'' (snd (hd catalog)))"
    by (simp add: stub_def)
  from no_iface_no_canvas_calls [OF quiet li valid] quiet li valid
  show ?thesis
    by (auto split: prod.splits)
qed

subsection \<open>A layer the host reports as invalid\<close>

text \<open>Claim C4. For every definition of the catalog, on a host where no call raises and which
  reports the constructed layer as invalid, the method returns normally without registering
  a layer, without setting the project's CRS and without closing the dialog, and shows one
  warning box. Its text contains the template URL of the definition, and the message of the
  host's error when \<^verbatim>\<open>layer.error()\<close> is truthy; when it is falsy the text holds the
  source's fallback \<open>nieznany_blad\<close> instead.\<close>

theorem invalid_layer_reports_error:
  assumes quiet: "\<And>cs c. raises h cs c = None"
    and li: "get (layers (init i)) name = Some li"
    and invalid: "\<not> layer_isValid h (new_layer name li)"
  shows "(case download_layer h ((init i)\<lparr>current_text := name\<rparr>) of
            (r, d', cs) \<Rightarrow>
              r = None \<and>
              filter is_addMapLayer cs = [] \<and>
              filter is_setCrs cs = [] \<and>
              filter is_accept cs = [] \<and>
              \<not> accepted d' \<and>
              (\<exists>txt. filter is_warning cs = [QMessageBox_warning failure_title txt] \<and>
                 sublist (url li) txt \<and>
                 (\<forall>m. layer_error h (new_layer name li) = Some m \<longrightarrow> sublist m txt) \<and>
                 (layer_error h (new_layer name li) = None \<longrightarrow> sublist nieznany_blad txt)))"
proof -
  have msg: "sublist (url li) (failure_text name m li) \<and> sublist m (failure_text name m li)" for m
  proof
    show "sublist (url li) (failure_text name m li)"
      unfolding failure_text_def by (intro suffix_imp_sublist suffix_appendI) simp
    have "failure_text name m li =
        (failure_reasons name @ szczegoly) @ m @ ([CHR 0x0A, CHR 0x0A] @ ''URL: '' @ url li)"
      by (simp add: failure_text_def)
    then show "sublist m (failure_text name m li)"
      by (simp only: sublist_appendI)
  qed
  show ?thesis
    using li catalog_entry(1)[OF li] invalid msg
    by (simp add: download_layer_def Let_def try_body_def quiet_layer_invalid[OF quiet]
          run_defs quiet handler_def init_fields(5) split: option.split)
qed

theorem invalid_layer_reports_error_witness:
  "(\<forall>cs c. raises (stub False (Some ''timeout'') False '''') cs c = None) \<and>
   get (layers (init None)) ''Standardowa mapa OSM'' = Some (snd (hd catalog)) \<and>
   \<not> layer_isValid (stub False (Some ''timeout'') False '''')
       (new_layer ''Standardowa mapa OSM'' (snd (hd catalog))) \<and>
   layer_error (stub False (Some ''timeout'') False '''')
       (new_layer ''Standardowa mapa OSM'' (snd (hd catalog))) = Some ''timeout'' \<and>
   (case download_layer (stub False (Some ''timeout'') False '''')
           ((init None)\<lparr>current_text := ''Standardowa mapa OSM''\<rparr>) of
      (r, d', cs) \<Rightarrow>
        r = None \<and> filter is_addMapLayer cs = [] \<and> filter is_setCrs cs = [] \<and>
        filter is_accept cs = [] \<and> \<not> accepted d' \<and>
        (\<exists>txt. filter is_warning cs = [QMessageBox_warning failure_title txt] \<and>
           sublist ''https://tile.openstreetmap.org/{z}/{x}/{y}.png'' txt \<and>
           sublist ''timeout'' txt))"
proof -
  let ?h = "stub False (Some ''timeout'') False ''''"
  have quiet: "\<And>cs c. raises ?h cs c = None"
    by (simp add: stub_def)
  have li: "get (layers (init None)) ''Standardowa mapa OSM'' = Some (snd (hd catalog))"
    by (simp add: get_def init_def catalog_def)
  have invalid: "\<not> layer_isValid ?h (new_layer ''Standardowa mapa OSM'' (snd (hd catalog)))"
    by (simp add: stub_def)
  have err: "layer_error ?h (new_layer ''Standardowa mapa OSM'' (snd (hd catalog))) = Some ''timeout''"
    by (simp add: stub_def)
  have tmpl: "url (snd (hd catalog)) = ''https://tile.openstreetmap.org/{z}/{x}/{y}.png''"
    by (simp add: catalog_def)
  from invalid_layer_reports_error [OF quiet li invalid] quiet li invalid err
  show ?thesis
    by (auto simp: tmpl split: prod.splits)
qed

subsection \<open>The progress bar\<close>

text \<open>Claim C9. The dialog leaves \<^verbatim>\<open>__init__\<close> with the progress bar hidden, and every
  invocation of the method that returns to its caller, on any host and for any selection,
  whether it ended in success, with an invalid layer or with a caught exception, leaves a bar
  that was hidden before hidden again. If the log shows the bar being made visible, hiding
  it is the last call of the log.\<close>

theorem progress_bar_left_hidden:
  assumes run: "download_layer h d = (None, d', cs)"
    and hidden: "\<not> progress_bar_visible d"
  shows "\<not> progress_bar_visible (init i) \<and>
         \<not> progress_bar_visible d' \<and>
         (ProgressBar_setVisible True \<in> set cs \<longrightarrow> last cs = ProgressBar_setVisible False)"
proof (cases "get (layers d) (current_text d)")
  case None
  with run have "d' = d"
    and "set cs \<subseteq> {LayerCombo_currentText, QMessageBox_warning blad ''Nie wybrano warstwy.''}"
    by (auto simp: download_layer_def Let_def call_def split: option.splits)
  with hidden show ?thesis by (auto simp: init_fields)
next
  case (Some li)
  let ?protected = "try_finally (try_except (try_body h d (current_text d) li) (handler h))
                (setVisible h False)"
  let ?inner = "sequence [setVisible h True, call h (ProgressBar_setRange 0 0), ?protected]"
  from run have "sequence ([call h LayerCombo_currentText] @ [?inner]) (d, []) = (None, d', cs)"
    unfolding download_layer_def Let_def Some by simp
  from sequence_last [OF this] obtain s1 where "?inner s1 = (None, d', cs)"
    by blast
  then have
    "sequence ([setVisible h True, call h (ProgressBar_setRange 0 0)] @ [?protected]) s1 = (None, d', cs)"
    by (simp del: sequence.simps)
  from sequence_last [OF this] obtain s2 where "?protected s2 = (None, d', cs)"
    by blast
  from try_finally_setVisible [OF this] show ?thesis
    by (simp add: init_fields)
qed

theorem progress_bar_left_hidden_witness:
  "fst (download_layer (stub True None False '''') (init (Some QgisInterface))) = None \<and>
   \<not> progress_bar_visible (init (Some QgisInterface)) \<and>
   \<not> progress_bar_visible
       (fst (snd (download_layer (stub True None False '''') (init (Some QgisInterface))))) \<and>
   fst (download_layer (stub_raising Canvas_refresh (Exception ''boom''))
          (init (Some QgisInterface))) = None \<and>
   \<not> progress_bar_visible
       (fst (snd (download_layer (stub_raising Canvas_refresh (Exception ''boom''))
                    (init (Some QgisInterface)))))"
proof -
  let ?d = "init (Some QgisInterface)"
  let ?h0 = "stub True None False ''''"
  let ?h1 = "stub_raising Canvas_refresh (Exception ''boom'')"
  have hidden: "\<not> progress_bar_visible ?d"
    by (simp add: init_def)
  have normal0: "fst (download_layer ?h0 ?d) = None"
    by (simp add: download_layer_def run_defs get_def init_def catalog_def try_body_def
          layer_valid_def set_project_crs_def set_view_def py_float_def digit_val_def Let_def
          stub_def handler_def)
  have normal1: "fst (download_layer ?h1 ?d) = None"
    by (simp add: download_layer_def run_defs get_def init_def catalog_def try_body_def
          layer_valid_def set_project_crs_def set_view_def py_float_def digit_val_def Let_def
          stub_def stub_raising_def handler_def)
  from normal0 have run0: "download_layer ?h0 ?d =
      (None, fst (snd (download_layer ?h0 ?d)), snd (snd (download_layer ?h0 ?d)))"
    by (metis prod.collapse)
  from normal1 have run1: "download_layer ?h1 ?d =
      (None, fst (snd (download_layer ?h1 ?d)), snd (snd (download_layer ?h1 ?d)))"
    by (metis prod.collapse)
  from progress_bar_left_hidden [OF run0 hidden, where i = None]
    progress_bar_left_hidden [OF run1 hidden, where i = None]
    normal0 normal1 hidden
  show ?thesis by blast
qed

subsection \<open>An exception raised by the host\<close>

text \<open>Claim C8, as amended. Take any host on which the calls outside the \<^verbatim>\<open>try\<close> block
  (reading the combo box, the two calls on the progress bar) and the error box of the handler
  do not raise, and any selection that is a key of the catalog. If some call of the run raised
  an exception \<open>e\<close>, which under these conditions is a call of the sequence inside the
  \<^verbatim>\<open>try\<close> block, then:
  \<^item> when \<open>e\<close> is an instance of \<^verbatim>\<open>Exception\<close>, the method returns normally: the
    exception does not reach the caller. The error box with the text of \<open>e\<close> is shown,
    followed only by the hiding of the progress bar;
  \<^item> when \<open>e\<close> is not an instance of \<^verbatim>\<open>Exception\<close>, the handler of line 238 does not
    take it: \<open>e\<close> reaches the caller, after the progress bar has been hidden.
  Either way the dialog is as it was before the invocation: not closed, the progress bar
  hidden, the table and the selection untouched, hence ready for another attempt.\<close>

theorem host_exception_caught:
  assumes bar: "\<And>cs b. raises h cs (ProgressBar_setVisible b) = None"
    and rng: "\<And>cs. raises h cs (ProgressBar_setRange 0 0) = None"
    and cur: "\<And>cs. raises h cs LayerCombo_currentText = None"
    and box: "\<And>cs t m. raises h cs (QMessageBox_critical t m) = None"
    and li: "get (layers (init i)) name = Some li"
    and run: "download_layer h ((init i)\<lparr>current_text := name\<rparr>) = (r, d', cs)"
    and exc: "raised h [] cs = Some e"
  shows "(is_Exception e \<longrightarrow>
            r = None \<and>
            QMessageBox_critical blad (critical_text e) \<in> set cs \<and>
            sublist (str e) (critical_text e) \<and>
            (\<exists>before. cs = before @ [QMessageBox_critical blad (critical_text e),
                                       ProgressBar_setVisible False])) \<and>
         (\<not> is_Exception e \<longrightarrow>
            r = Some e \<and> (\<exists>before. cs = before @ [ProgressBar_setVisible False])) \<and>
         \<not> accepted d' \<and>
         \<not> progress_bar_visible d' \<and>
         d' = (init i)\<lparr>current_text := name\<rparr>"
proof -
  let ?d0 = "(init i)\<lparr>current_text := name\<rparr>"
  let ?d1 = "?d0\<lparr>progress_bar_visible := True\<rparr>"
  let ?cs1 = "[LayerCombo_currentText, ProgressBar_setVisible True, ProgressBar_setRange 0 0]"
  obtain rb d2 cs2 where body: "try_body h ?d0 name li (?d1, ?cs1) = (rb, d2, cs2)"
    by (cases "try_body h ?d0 name li (?d1, ?cs1)") auto
  from guardedD [OF guarded_try_body body] obtain ext
    where same: "rb \<noteq> None \<longrightarrow> d2 = ?d1" and log: "cs2 = ?cs1 @ ext"
      and ext: "raised h ?cs1 ext = rb"
    by blast
  have restore: "?d1\<lparr>progress_bar_visible := False\<rparr> = ?d0"
    by (simp add: init_def)
  have shown: "sublist (str e) (critical_text e)"
    by (simp add: critical_text_def)
  show ?thesis
  proof (cases rb)
    case None
    with li body bar rng cur
    have "download_layer h ?d0 =
            (None, d2\<lparr>progress_bar_visible := False\<rparr>, cs2 @ [ProgressBar_setVisible False])"
      by (simp add: download_layer_def Let_def run_defs)
    with run have "cs = ?cs1 @ ext @ [ProgressBar_setVisible False]"
      by (simp add: log)
    moreover have "raised h [] (?cs1 @ ext @ [ProgressBar_setVisible False]) = None"
      using raised_append [of h "[]" ?cs1 "ext @ [ProgressBar_setVisible False]"]
        raised_append [of h ?cs1 ext "[ProgressBar_setVisible False]"] ext None
      by (simp add: bar rng cur)
    ultimately have "raised h [] cs = None"
      by simp
    with exc show ?thesis by simp
  next
    case (Some e')
    show ?thesis
    proof (cases "is_Exception e'")
      case True
      with Some li body bar rng cur box
      have "download_layer h ?d0 =
              (None, d2\<lparr>progress_bar_visible := False\<rparr>,
               cs2 @ [QMessageBox_critical blad (critical_text e'), ProgressBar_setVisible False])"
        by (simp add: download_layer_def Let_def run_defs handler_def)
      with run same Some restore
      have r: "r = None" and d': "d' = ?d0"
        and cs: "cs = ?cs1 @ ext @
                   [QMessageBox_critical blad (critical_text e'), ProgressBar_setVisible False]"
        by (simp_all add: log)
      have "raised h [] (?cs1 @ ext @
              [QMessageBox_critical blad (critical_text e'), ProgressBar_setVisible False]) =
            Some e'"
        using raised_append [of h "[]" ?cs1 "ext @
              [QMessageBox_critical blad (critical_text e'), ProgressBar_setVisible False]"]
          raised_append [of h ?cs1 ext
              "[QMessageBox_critical blad (critical_text e'), ProgressBar_setVisible False]"]
          ext Some
        by (simp add: bar rng cur)
      with cs exc have e: "e' = e" by simp
      from cs e have "cs = (?cs1 @ ext) @
          [QMessageBox_critical blad (critical_text e), ProgressBar_setVisible False]"
        by simp
      then have shape: "\<exists>before. cs = before @
          [QMessageBox_critical blad (critical_text e), ProgressBar_setVisible False]"
        by (rule exI)
      then have "QMessageBox_critical blad (critical_text e) \<in> set cs"
        by auto
      with r d' shown shape True e show ?thesis
        by (simp add: init_fields)
    next
      case False
      with Some li body bar rng cur
      have "download_layer h ?d0 =
              (Some e', d2\<lparr>progress_bar_visible := False\<rparr>,
               cs2 @ [ProgressBar_setVisible False])"
        by (simp add: download_layer_def Let_def run_defs)
      with run same Some restore
      have r: "r = Some e'" and d': "d' = ?d0"
        and cs: "cs = ?cs1 @ ext @ [ProgressBar_setVisible False]"
        by (simp_all add: log)
      have "raised h [] (?cs1 @ ext @ [ProgressBar_setVisible False]) = Some e'"
        using raised_append [of h "[]" ?cs1 "ext @ [ProgressBar_setVisible False]"]
          raised_append [of h ?cs1 ext "[ProgressBar_setVisible False]"] ext Some
        by (simp add: bar rng cur)
      with cs exc have e: "e' = e" by simp
      from cs have "cs = (?cs1 @ ext) @ [ProgressBar_setVisible False]"
        by simp
      then have shape: "\<exists>before. cs = before @ [ProgressBar_setVisible False]"
        by (rule exI)
      with r d' False e show ?thesis
        by (simp add: init_fields)
    qed
  qed
qed

theorem host_exception_caught_witness:
  "(\<forall>cs b. raises (stub_raising Canvas_refresh (Exception ''boom'')) cs
              (ProgressBar_setVisible b) = None) \<and>
   (\<forall>cs. raises (stub_raising Canvas_refresh (Exception ''boom'')) cs
            (ProgressBar_setRange 0 0) = None) \<and>
   (\<forall>cs. raises (stub_raising Canvas_refresh (Exception ''boom'')) cs
            LayerCombo_currentText = None) \<and>
   (\<forall>cs t m. raises (stub_raising Canvas_refresh (Exception ''boom'')) cs
                (QMessageBox_critical t m) = None) \<and>
   get (layers (init (Some QgisInterface))) ''Transport'' = Some (snd (last catalog)) \<and>
   raised (stub_raising Canvas_refresh (Exception ''boom'')) []
     (snd (snd (download_layer (stub_raising Canvas_refresh (Exception ''boom''))
                  ((init (Some QgisInterface))\<lparr>current_text := ''Transport''\<rparr>)))) =
     Some (Exception ''boom'') \<and>
   is_Exception (Exception ''boom'') \<and>
   fst (download_layer (stub_raising Canvas_refresh (Exception ''boom''))
          ((init (Some QgisInterface))\<lparr>current_text := ''Transport''\<rparr>)) = None \<and>
   QMessageBox_critical blad (critical_text (Exception ''boom'')) \<in>
     set (snd (snd (download_layer (stub_raising Canvas_refresh (Exception ''boom''))
                      ((init (Some QgisInterface))\<lparr>current_text := ''Transport''\<rparr>)))) \<and>
   sublist ''boom'' (critical_text (Exception ''boom'')) \<and>
   fst (snd (download_layer (stub_raising Canvas_refresh (Exception ''boom''))
               ((init (Some QgisInterface))\<lparr>current_text := ''Transport''\<rparr>))) =
     (init (Some QgisInterface))\<lparr>current_text := ''Transport''\<rparr> \<and>
   raised (stub_raising Canvas_refresh (SystemExit ''0'')) []
     (snd (snd (download_layer (stub_raising Canvas_refresh (SystemExit ''0''))
                  ((init (Some QgisInterface))\<lparr>current_text := ''Transport''\<rparr>)))) =
     Some (SystemExit ''0'') \<and>
   \<not> is_Exception (SystemExit ''0'') \<and>
   fst (download_layer (stub_raising Canvas_refresh (SystemExit ''0''))
          ((init (Some QgisInterface))\<lparr>current_text := ''Transport''\<rparr>)) =
     Some (SystemExit ''0'') \<and>
   fst (snd (download_layer (stub_raising Canvas_refresh (SystemExit ''0''))
               ((init (Some QgisInterface))\<lparr>current_text := ''Transport''\<rparr>))) =
     (init (Some QgisInterface))\<lparr>current_text := ''Transport''\<rparr>"
proof -
  let ?h = "stub_raising Canvas_refresh (Exception ''boom'')"
  let ?k = "stub_raising Canvas_refresh (SystemExit ''0'')"
  let ?d = "(init (Some QgisInterface))\<lparr>current_text := ''Transport''\<rparr>"
  have bar: "\<And>cs b. raises ?h cs (ProgressBar_setVisible b) = None"
    and rng: "\<And>cs. raises ?h cs (ProgressBar_setRange 0 0) = None"
    and cur: "\<And>cs. raises ?h cs LayerCombo_currentText = None"
    and box: "\<And>cs t m. raises ?h cs (QMessageBox_critical t m) = None"
    by (simp_all add: stub_raising_def stub_def)
  have bar': "\<And>cs b. raises ?k cs (ProgressBar_setVisible b) = None"
    and rng': "\<And>cs. raises ?k cs (ProgressBar_setRange 0 0) = None"
    and cur': "\<And>cs. raises ?k cs LayerCombo_currentText = None"
    and box': "\<And>cs t m. raises ?k cs (QMessageBox_critical t m) = None"
    by (simp_all add: stub_raising_def stub_def)
  have li: "get (layers (init (Some QgisInterface))) ''Transport'' = Some (snd (last catalog))"
    by (simp add: get_def init_def catalog_def)
  have exc: "raised ?h [] (snd (snd (download_layer ?h ?d))) = Some (Exception ''boom'')"
    by (simp add: download_layer_def run_defs get_def init_def catalog_def try_body_def
          layer_valid_def set_project_crs_def set_view_def py_float_def digit_val_def Let_def
          stub_def stub_raising_def handler_def)
  have exc': "raised ?k [] (snd (snd (download_layer ?k ?d))) = Some (SystemExit ''0'')"
    by (simp add: download_layer_def run_defs get_def init_def catalog_def try_body_def
          layer_valid_def set_project_crs_def set_view_def py_float_def digit_val_def Let_def
          stub_def stub_raising_def handler_def)
  have run: "download_layer ?h ?d =
      (fst (download_layer ?h ?d), fst (snd (download_layer ?h ?d)),
       snd (snd (download_layer ?h ?d)))"
    by simp
  have run': "download_layer ?k ?d =
      (fst (download_layer ?k ?d), fst (snd (download_layer ?k ?d)),
       snd (snd (download_layer ?k ?d)))"
    by simp
  from host_exception_caught [OF bar rng cur box li run exc]
    host_exception_caught [OF bar' rng' cur' box' li run' exc']
    bar rng cur box li exc exc'
  show ?thesis
    by simp
qed

text \<open>The claim as it was stated, for every exception, fails when \<^verbatim>\<open>addMapLayer\<close> raises
  \<^verbatim>\<open>KeyboardInterrupt\<close>: a call of the sequence raised it, yet it reaches the caller and
  no error box is shown.\<close>

theorem host_exception_caught_counterexample:
  "raised
     (stub_raising (Project_addMapLayer (new_layer ''Transport'' (snd (last catalog))))
        (KeyboardInterrupt ''''))
     []
     (snd (snd (download_layer
                  (stub_raising (Project_addMapLayer (new_layer ''Transport'' (snd (last catalog))))
                     (KeyboardInterrupt ''''))
                  ((init (Some QgisInterface))\<lparr>current_text := ''Transport''\<rparr>)))) =
     Some (KeyboardInterrupt '''') \<and>
   fst (download_layer
          (stub_raising (Project_addMapLayer (new_layer ''Transport'' (snd (last catalog))))
             (KeyboardInterrupt ''''))
          ((init (Some QgisInterface))\<lparr>current_text := ''Transport''\<rparr>)) =
     Some (KeyboardInterrupt '''') \<and>
   filter is_critical
     (snd (snd (download_layer
                  (stub_raising (Project_addMapLayer (new_layer ''Transport'' (snd (last catalog))))
                     (KeyboardInterrupt ''''))
                  ((init (Some QgisInterface))\<lparr>current_text := ''Transport''\<rparr>)))) = []"
  by (simp add: download_layer_def run_defs get_def init_def catalog_def try_body_def
        layer_valid_def set_project_crs_def set_view_def Let_def stub_def stub_raising_def
        handler_def)

end
